theory Spec2Isabelle
  imports Complex_Main "HOL-Library.Sublist"
begin

section \<open>The editor page (src/app/page.tsx)\<close>

text \<open>
  The page is a React component. Its state hooks become the fields of a record, its
  handlers become functions from state to state, and the effects outside React
  (\<open>alert\<close>, \<open>console.error\<close>, \<open>setTimeout\<close>, the clipboard and the foreign call
  into the WebAssembly module) become fields that record them.
\<close>

text \<open>A value thrown by the foreign call, or the TypeError of reading a null reference.\<close>

datatype js_exception = Thrown string | TypeError

text \<open>One call of \<open>ccall(ident, returnType, argTypes, args)\<close>.\<close>

record ccall_request =
  ident :: string
  returnType :: string
  argTypes :: "string list"
  args :: "string list"

text \<open>\<open>TranspilerModule\<close>: its one member either returns a string or throws.\<close>

record TranspilerModule =
  ccall :: "string \<Rightarrow> string \<Rightarrow> string list \<Rightarrow> string list \<Rightarrow> js_exception + string"

text \<open>
  The two closures handed to \<open>setTimeout\<close>. The one of \<open>runTranspile\<close> closes over
  \<open>phpCode\<close> as it was when the handler ran.
\<close>

datatype timer_callback = TranspileCallback string | ToastClear

record page =
  moduleRef :: "TranspilerModule option"
  loading :: bool
  converting :: bool
  toast :: string
  showModal :: bool
  phpCode :: string
  jsCode :: string
  alerts :: "string list"
  console_errors :: "js_exception list"
  timers :: "(nat \<times> timer_callback) list"
  clipboard :: string
  wasm_calls :: "ccall_request list"

definition initial_phpCode :: string where
  "initial_phpCode =
     ''$a = 10;\<newline>$b = 20;\<newline>if ($a < $b) {\<newline>  echo \"B is greater\";\<newline>} else {\<newline>  echo \"A is greater\";\<newline>}\<newline>''"

definition sample1 :: string where
  "sample1 =
     ''$a = 1;\<newline>$b = 2;\<newline>$c = $a + $b * 10;\<newline>echo $c;\<newline>while ($a < 5) {\<newline>  echo $a;\<newline>  $a = $a + 1;\<newline>}\<newline>''"

definition initial_page :: page where
  "initial_page =
     \<lparr>moduleRef = None, loading = True, converting = False, toast = [], showModal = False,
      phpCode = initial_phpCode, jsCode = [], alerts = [], console_errors = [], timers = [],
      clipboard = [], wasm_calls = []\<rparr>"

text \<open>\<open>showToast\<close>: set the message and schedule its removal after 2000 ms.\<close>

definition showToast :: "string \<Rightarrow> page \<Rightarrow> page" where
  "showToast message st = st\<lparr>toast := message, timers := timers st @ [(2000, ToastClear)]\<rparr>"

text \<open>
  \<open>runTranspile\<close>: with no module loaded it alerts and returns; otherwise it raises the
  converting flag and schedules the call 300 ms later.
\<close>

definition runTranspile :: "page \<Rightarrow> page" where
  "runTranspile st =
     (case moduleRef st of
        None \<Rightarrow> st\<lparr>alerts := alerts st @ [''WASM not loaded yet'']\<rparr>
      | Some m \<Rightarrow>
          st\<lparr>converting := True, timers := timers st @ [(300, TranspileCallback (phpCode st))]\<rparr>)"

definition transpile_request :: "string \<Rightarrow> ccall_request" where
  "transpile_request src =
     \<lparr>ident = ''transpile'', returnType = ''string'', argTypes = [''string''], args = [src]\<rparr>"

text \<open>
  The body of the \<open>try\<close>: \<open>moduleRef.current!.ccall(...)\<close> and \<open>setJsCode(result)\<close>. It
  yields the exception, or the state after the assignment. Reading \<open>ccall\<close> off a null
  reference throws before any call is made.
\<close>

definition try_body :: "string \<Rightarrow> page \<Rightarrow> js_exception + page" where
  "try_body src st =
     (case moduleRef st of
        None \<Rightarrow> Inl TypeError
      | Some m \<Rightarrow>
          (let rq = transpile_request src;
               st1 = st\<lparr>wasm_calls := wasm_calls st @ [rq]\<rparr>
           in case ccall m (ident rq) (returnType rq) (argTypes rq) (args rq) of
                Inl err \<Rightarrow> Inl err
              | Inr result \<Rightarrow> Inr (st1\<lparr>jsCode := result\<rparr>)))"

text \<open>
  The state the \<open>catch\<close> block starts from: the foreign call, when it was made, stays
  made.
\<close>

definition after_throw :: "string \<Rightarrow> page \<Rightarrow> page" where
  "after_throw src st =
     (case moduleRef st of
        None \<Rightarrow> st
      | Some m \<Rightarrow> st\<lparr>wasm_calls := wasm_calls st @ [transpile_request src]\<rparr>)"

text \<open>The timer closure of \<open>runTranspile\<close>: try, catch, finally.\<close>

definition transpile_callback :: "string \<Rightarrow> page \<Rightarrow> page" where
  "transpile_callback src st =
     (let st2 =
        (case try_body src st of
           Inr st1 \<Rightarrow> st1
         | Inl err \<Rightarrow>
             (after_throw src st)
               \<lparr>console_errors := console_errors st @ [err], jsCode := ''// transpile error''\<rparr>)
      in st2\<lparr>converting := False\<rparr>)"

definition copyToClipboard :: "page \<Rightarrow> page" where
  "copyToClipboard st = showToast ''Copied to clipboard!'' (st\<lparr>clipboard := jsCode st\<rparr>)"

definition clearAll :: "page \<Rightarrow> page" where
  "clearAll st = showToast ''Cleared all code!'' (st\<lparr>phpCode := [], jsCode := []\<rparr>)"

definition loadSample :: "page \<Rightarrow> page" where
  "loadSample st = showToast ''Sample code loaded!'' (st\<lparr>phpCode := sample1\<rparr>)"

text \<open>JavaScript's \<open>!s\<close> on a string: true exactly for the string of length 0.\<close>

definition js_not_string :: "string \<Rightarrow> bool" where
  "js_not_string s = (length s = 0)"

text \<open>The \<open>disabled\<close> attributes of the Copy and Convert buttons.\<close>

definition copy_disabled :: "page \<Rightarrow> bool" where
  "copy_disabled st = js_not_string (jsCode st)"

definition convert_disabled :: "page \<Rightarrow> bool" where
  "convert_disabled st = (loading st \<or> converting st)"

text \<open>Running a timer's closure.\<close>

fun run_callback :: "timer_callback \<Rightarrow> page \<Rightarrow> page" where
  "run_callback (TranspileCallback src) st = transpile_callback src st"
| "run_callback ToastClear st = st\<lparr>toast := []\<rparr>"

text \<open>
  What can happen to the page: the outcomes of loading the script and of the module
  factory (the effect hook), clicks on buttons that are not disabled, edits of the input,
  and a pending timer firing.
\<close>

datatype event =
    ScriptLoadedNoFactory
  | ModuleReady TranspilerModule
  | ModuleInitFailed js_exception
  | ScriptError js_exception
  | ClickConvert
  | ClickCopy
  | ClickClear
  | ClickSample
  | EditPhp string
  | SetModal bool
  | TimerFires nat

fun enabled :: "event \<Rightarrow> page \<Rightarrow> bool" where
  "enabled ClickConvert st = (\<not> convert_disabled st)"
| "enabled ClickCopy st = (\<not> copy_disabled st)"
| "enabled (TimerFires i) st = (i < length (timers st))"
| "enabled _ st = True"

fun handle :: "event \<Rightarrow> page \<Rightarrow> page" where
  "handle ScriptLoadedNoFactory st =
     st\<lparr>loading := False, console_errors := console_errors st @ [Thrown ''createTranspilerModule not found'']\<rparr>"
| "handle (ModuleReady m) st = st\<lparr>moduleRef := Some m, loading := False\<rparr>"
| "handle (ModuleInitFailed err) st =
     st\<lparr>loading := False, console_errors := console_errors st @ [err]\<rparr>"
| "handle (ScriptError err) st =
     st\<lparr>loading := False, console_errors := console_errors st @ [err]\<rparr>"
| "handle ClickConvert st = runTranspile st"
| "handle ClickCopy st = copyToClipboard st"
| "handle ClickClear st = clearAll st"
| "handle ClickSample st = loadSample st"
| "handle (EditPhp s) st = st\<lparr>phpCode := s\<rparr>"
| "handle (SetModal b) st = st\<lparr>showModal := b\<rparr>"
| "handle (TimerFires i) st =
     run_callback (snd (timers st ! i)) (st\<lparr>timers := take i (timers st) @ drop (Suc i) (timers st)\<rparr>)"

inductive reachable :: "page \<Rightarrow> bool" where
  init: "reachable initial_page"
| step: "reachable st \<Longrightarrow> enabled ev st \<Longrightarrow> reachable (handle ev st)"

text \<open>A transpile closure is pending.\<close>

definition transpile_pending :: "page \<Rightarrow> bool" where
  "transpile_pending st = (\<exists>d src. (d, TranspileCallback src) \<in> set (timers st))"

text \<open>
  What every reachable page satisfies: the module reference is set only together with
  the end of loading, a transpile closure is scheduled only once the module is there, and
  every foreign call made so far is the one request shape of \<open>runTranspile\<close>.
\<close>

definition page_inv :: "page \<Rightarrow> bool" where
  "page_inv st =
     ((moduleRef st = None \<or> \<not> loading st) \<and>
      (\<not> transpile_pending st \<or> moduleRef st \<noteq> None) \<and>
      list_all (\<lambda>rq. \<exists>src. rq = transpile_request src) (wasm_calls st))"


definition throwing_module :: TranspilerModule where
  "throwing_module = \<lparr>ccall = (\<lambda>i r ts xs. Inl (Thrown ''abort''))\<rparr>"

definition clicked_page :: "TranspilerModule \<Rightarrow> page" where
  "clicked_page m = handle ClickConvert (handle (ModuleReady m) initial_page)"

subsection \<open>Lemmas about the page\<close>

lemma timers_remove_subset:
  "set (take i ts @ drop (Suc i) ts) \<subseteq> set ts"
  by (auto dest: in_set_takeD in_set_dropD)

lemma transpile_callback_moduleRef [simp]:
  "moduleRef (transpile_callback src st) = moduleRef st"
  by (simp add: transpile_callback_def try_body_def after_throw_def Let_def
      split: option.splits sum.splits)

lemma transpile_callback_loading [simp]:
  "loading (transpile_callback src st) = loading st"
  by (simp add: transpile_callback_def try_body_def after_throw_def Let_def
      split: option.splits sum.splits)

lemma transpile_callback_timers [simp]:
  "timers (transpile_callback src st) = timers st"
  by (simp add: transpile_callback_def try_body_def after_throw_def Let_def
      split: option.splits sum.splits)

lemma transpile_callback_converting [simp]:
  "converting (transpile_callback src st) = False"
  by (simp add: transpile_callback_def Let_def)

lemma transpile_callback_calls:
  "wasm_calls (transpile_callback src st) =
     (case moduleRef st of None \<Rightarrow> wasm_calls st
      | Some m \<Rightarrow> wasm_calls st @ [transpile_request src])"
  by (simp add: transpile_callback_def try_body_def after_throw_def Let_def
      split: option.splits sum.splits)

lemma page_inv_initial: "page_inv initial_page"
  by (simp add: page_inv_def initial_page_def transpile_pending_def)

lemma page_inv_handle:
  assumes "page_inv st" and "enabled ev st"
  shows "page_inv (handle ev st)"
proof (cases ev)
  case (TimerFires i)
  let ?st' = "st\<lparr>timers := take i (timers st) @ drop (Suc i) (timers st)\<rparr>"
  have sub: "set (timers ?st') \<subseteq> set (timers st)"
    using timers_remove_subset by simp
  have inv': "page_inv ?st'"
    using assms(1) sub unfolding page_inv_def transpile_pending_def by auto
  show ?thesis
  proof (cases "snd (timers st ! i)")
    case (TranspileCallback src)
    then show ?thesis using inv' TimerFires
      unfolding page_inv_def transpile_pending_def
      by (auto simp: transpile_callback_calls split: option.splits)
  next
    case ToastClear
    then show ?thesis using inv' TimerFires
      unfolding page_inv_def transpile_pending_def by auto
  qed
next
  case ClickConvert
  then show ?thesis using assms
    by (auto simp: page_inv_def transpile_pending_def runTranspile_def split: option.splits)
qed (use assms in \<open>auto simp: page_inv_def transpile_pending_def
      copyToClipboard_def clearAll_def loadSample_def showToast_def\<close>)

lemma reachable_page_inv: "reachable st \<Longrightarrow> page_inv st"
  by (induction rule: reachable.induct) (auto intro: page_inv_initial page_inv_handle)

lemma reachable_clicked: "reachable (clicked_page m)"
  unfolding clicked_page_def
  by (intro reachable.step reachable.init)
     (simp_all add: convert_disabled_def initial_page_def)

lemma clicked_page_simps:
  "timers (clicked_page m) = [(300, TranspileCallback initial_phpCode)]"
  "moduleRef (clicked_page m) = Some m"
  "wasm_calls (clicked_page m) = []"
  "loading (clicked_page m) = False"
  "converting (clicked_page m) = True"
  "jsCode (clicked_page m) = []"
  by (simp_all add: clicked_page_def runTranspile_def initial_page_def)

subsection \<open>Claims about the page\<close>

text \<open>
  C8. When the module reference is still null, \<open>runTranspile\<close> only raises the alert:
  the PHP input, the JavaScript output, the converting flag, the pending timers and the
  foreign calls are as they were.
\<close>

theorem runTranspile_not_loaded:
  "moduleRef st = None \<Longrightarrow>
     runTranspile st = st\<lparr>alerts := alerts st @ [''WASM not loaded yet'']\<rparr> \<and>
     phpCode (runTranspile st) = phpCode st \<and>
     jsCode (runTranspile st) = jsCode st \<and>
     converting (runTranspile st) = converting st \<and>
     timers (runTranspile st) = timers st \<and>
     wasm_calls (runTranspile st) = wasm_calls st"
  by (simp add: runTranspile_def)

theorem runTranspile_not_loaded_witness:
  "moduleRef initial_page = None \<and>
   phpCode (runTranspile initial_page) = initial_phpCode \<and>
   jsCode (runTranspile initial_page) = [] \<and>
   timers (runTranspile initial_page) = []"
proof -
  have h: "moduleRef initial_page = None" by (simp add: initial_page_def)
  show ?thesis using h runTranspile_not_loaded [OF h] by (simp add: initial_page_def)
qed

text \<open>
  C9. The timer closure of \<open>runTranspile\<close> always leaves the converting flag false, so
  the Convert button is disabled afterwards only while the page is loading. Whenever the
  body of the \<open>try\<close> throws, whatever the exception, the output becomes the fixed text
  \<open>// transpile error\<close> and the exception goes to the console only; a throwing
  \<open>ccall\<close> is such a case. On a reachable page a firing transpile closure leaves the
  Convert button enabled.
\<close>

theorem transpile_callback_catch_finally:
  "converting (transpile_callback src st) = False \<and>
   convert_disabled (transpile_callback src st) = loading st \<and>
   (\<forall>err. try_body src st = Inl err \<longrightarrow>
      jsCode (transpile_callback src st) = ''// transpile error'' \<and>
      console_errors (transpile_callback src st) = console_errors st @ [err]) \<and>
   (\<forall>m err. moduleRef st = Some m \<and>
        ccall m ''transpile'' ''string'' [''string''] [src] = Inl err \<longrightarrow>
      try_body src st = Inl err) \<and>
   (\<forall>i. reachable st \<and> i < length (timers st) \<and>
        snd (timers st ! i) = TranspileCallback src \<longrightarrow>
      \<not> convert_disabled (handle (TimerFires i) st))"
proof (intro conjI allI impI)
  show "converting (transpile_callback src st) = False"
    by simp
  then show "convert_disabled (transpile_callback src st) = loading st"
    by (simp add: convert_disabled_def)
next
  fix err assume "try_body src st = Inl err"
  then show "jsCode (transpile_callback src st) = ''// transpile error''"
    and "console_errors (transpile_callback src st) = console_errors st @ [err]"
    by (simp_all add: transpile_callback_def Let_def)
next
  fix m err
  assume "moduleRef st = Some m \<and> ccall m ''transpile'' ''string'' [''string''] [src] = Inl err"
  then show "try_body src st = Inl err"
    by (simp add: try_body_def transpile_request_def Let_def)
next
  fix i
  assume a: "reachable st \<and> i < length (timers st) \<and> snd (timers st ! i) = TranspileCallback src"
  then have inv: "page_inv st" by (simp add: reachable_page_inv)
  from a have "(fst (timers st ! i), TranspileCallback src) \<in> set (timers st)"
    by (metis nth_mem prod.collapse)
  then have "transpile_pending st" unfolding transpile_pending_def by blast
  with inv have "\<not> loading st" unfolding page_inv_def by auto
  then show "\<not> convert_disabled (handle (TimerFires i) st)"
    using a by (simp add: convert_disabled_def)
qed

theorem transpile_callback_catch_finally_witness:
  "try_body initial_phpCode (clicked_page throwing_module) = Inl (Thrown ''abort'') \<and>
   reachable (clicked_page throwing_module) \<and>
   snd (timers (clicked_page throwing_module) ! 0) = TranspileCallback initial_phpCode \<and>
   convert_disabled (clicked_page throwing_module) \<and>
   jsCode (transpile_callback initial_phpCode (clicked_page throwing_module)) = ''// transpile error'' \<and>
   \<not> convert_disabled (handle (TimerFires 0) (clicked_page throwing_module))"
proof -
  let ?st = "clicked_page throwing_module"
  have c: "moduleRef ?st = Some throwing_module \<and>
      ccall throwing_module ''transpile'' ''string'' [''string''] [initial_phpCode] = Inl (Thrown ''abort'')"
    by (simp add: clicked_page_simps throwing_module_def)
  have r: "reachable ?st \<and> 0 < length (timers ?st) \<and>
      snd (timers ?st ! 0) = TranspileCallback initial_phpCode"
    by (simp add: clicked_page_simps reachable_clicked)
  have d: "convert_disabled ?st"
    by (simp add: convert_disabled_def clicked_page_simps)
  from transpile_callback_catch_finally [of initial_phpCode ?st] c r d
  show ?thesis by blast
qed

text \<open>
  C10. \<open>clearAll\<close> empties both the PHP input and the JavaScript output, and the Copy
  button's \<open>disabled\<close> attribute holds exactly when the JavaScript output is the empty
  string.
\<close>

theorem clearAll_and_copy_disabled:
  "phpCode (clearAll st) = [] \<and> jsCode (clearAll st) = [] \<and>
   copy_disabled st = (jsCode st = [])"
  by (simp add: clearAll_def showToast_def copy_disabled_def js_not_string_def)



section \<open>The transpiler core\<close>

text \<open>
  The page loads the transpiler as a compiled WebAssembly module; its source is not part
  of the repository's source files. The lexer, parser, generator and facade below are
  therefore written from the specification of the core, one definition per rule of the
  specification, and every definition says which rule it follows.
\<close>

subsection \<open>Tokens and stage errors\<close>

text \<open>
  Modelled from the spec: the token kinds of the data model (the lexer's source is
  missing).
\<close>

datatype kind = Number | Identifier | String | Keyword | Operator | Punctuation | EOF

text \<open>
  Modelled from the spec: a token is its kind, its literal text and its source offset,
  counted in characters of the input from 0.
\<close>

record token =
  kind :: kind
  literal :: string
  offset :: nat

text \<open>
  Modelled from the spec: \<open>LexError{position, unexpectedChar}\<close> and
  \<open>ParseError{position, expectedKind, foundKind}\<close>. Where several kinds of token
  would have been accepted, \<open>expectedKind\<close> lists them. The specification names a third
  error, \<open>UnsupportedConstruct\<close>, for arrays and functions, but gives the lexer no
  token for a bracket, a comma or a bare name, so no input reaches the parser as such a
  construct; the model has no case that raises it.
\<close>

datatype stage_error = LexError nat char | ParseError nat "kind list" kind

fun error_position :: "stage_error \<Rightarrow> nat" where
  "error_position (LexError p c) = p"
| "error_position (ParseError p ks f) = p"

fun is_parse_error :: "stage_error \<Rightarrow> bool" where
  "is_parse_error (LexError p c) = False"
| "is_parse_error (ParseError p ks f) = True"

subsection \<open>Lexer\<close>

text \<open>
  Modelled from the spec: the character classes of the lexer (its source is missing).
  A name starts with a letter or an underscore and goes on with letters, digits and
  underscores; blanks are space, tab, line feed and carriage return.
\<close>

definition is_digit :: "char \<Rightarrow> bool" where
  "is_digit c = (c \<in> set ''0123456789'')"

definition is_ident_start :: "char \<Rightarrow> bool" where
  "is_ident_start c = (c \<in> set ''abcdefghijklmnopqrstuvwxyzABCDEFGHIJKLMNOPQRSTUVWXYZ_'')"

definition is_ident_char :: "char \<Rightarrow> bool" where
  "is_ident_char c = (is_ident_start c \<or> is_digit c)"

definition is_space :: "char \<Rightarrow> bool" where
  "is_space c = (c \<in> set [CHR '' '', CHR 0x09, CHR 0x0A, CHR 0x0D])"

text \<open>
  Modelled from the spec: the keywords, the operators (those of two characters apart,
  since they are tried first) and the punctuation of the token data model.
\<close>

definition keyword_list :: "string list" where
  "keyword_list = [''if'', ''else'', ''while'', ''echo'']"

definition operators2 :: "string list" where
  "operators2 = [''<='', ''>='', ''=='', ''!='']"

definition operators1 :: "string list" where
  "operators1 = [''+'', ''-'', ''*'', ''/'', ''<'', ''>'', ''='']"

definition punctuation :: "string list" where
  "punctuation = [''('', '')'', ''{'', ''}'', '';'']"

text \<open>
  Modelled from the spec: the body of a quoted string, after the opening quote \<open>q\<close>
  (the lexer's source is missing). It yields the decoded value and the input after the
  closing quote, or nothing when the string is not closed. The escapes are the three the
  specification lists, backslash-quote, backslash-backslash and backslash-n; any other
  backslash is an ordinary character.
\<close>

fun scan_string :: "char \<Rightarrow> string \<Rightarrow> (string \<times> string) option" where
  "scan_string q [] = None"
| "scan_string q [c] = (if c = q then Some ([], []) else None)"
| "scan_string q (c # d # cs) =
     (if c = q then Some ([], d # cs)
      else if c = CHR 0x5C \<and> d = CHR 0x22 then
        map_option (apfst ((#) (CHR 0x22))) (scan_string q cs)
      else if c = CHR 0x5C \<and> d = CHR 0x5C then
        map_option (apfst ((#) (CHR 0x5C))) (scan_string q cs)
      else if c = CHR 0x5C \<and> d = CHR ''n'' then
        map_option (apfst ((#) (CHR 0x0A))) (scan_string q cs)
      else map_option (apfst ((#) c)) (scan_string q (d # cs)))"

text \<open>
  Modelled from the spec: a decimal integer or float literal whose first digit is \<open>c\<close>:
  digits, then optionally a point followed by at least one digit.
\<close>

definition scan_number :: "char \<Rightarrow> string \<Rightarrow> string \<times> string" where
  "scan_number c cs =
     (let whole = c # takeWhile is_digit cs; r = dropWhile is_digit cs
      in case r of
           d # e # r' \<Rightarrow>
             if d = CHR ''.'' \<and> is_digit e
             then (whole @ d # e # takeWhile is_digit r', dropWhile is_digit r')
             else (whole, r)
         | _ \<Rightarrow> (whole, r))"

text \<open>
  Modelled from the spec: operators and punctuation, the operators of two characters
  first (the greedy rule). A character that starts none of them is the unexpected
  character of a \<open>LexError\<close>.
\<close>

definition scan_operator :: "char \<Rightarrow> string \<Rightarrow> char + (kind \<times> string \<times> string)" where
  "scan_operator c cs =
     (if [c] @ take 1 cs \<in> set operators2 \<and> cs \<noteq> [] then Inr (Operator, [c] @ take 1 cs, drop 1 cs)
      else if [c] \<in> set operators1 then Inr (Operator, [c], cs)
      else if [c] \<in> set punctuation then Inr (Punctuation, [c], cs)
      else Inl c)"

text \<open>
  Modelled from the spec: one token starting at the character \<open>c\<close>, followed by
  \<open>cs\<close>; the result is the token's kind, its literal and the input left, or the
  unexpected character. A variable is the sigil and a name, and its literal is the name
  without the sigil. A bare word is a token only when it is a keyword. An unclosed
  string reports its opening quote.
\<close>

definition scan_token :: "char \<Rightarrow> string \<Rightarrow> char + (kind \<times> string \<times> string)" where
  "scan_token c cs =
     (if c = CHR ''$'' then
        (case takeWhile is_ident_char cs of
           [] \<Rightarrow> Inl c
         | n # ns \<Rightarrow>
             if is_ident_start n then Inr (Identifier, n # ns, dropWhile is_ident_char cs)
             else Inl c)
      else if is_ident_start c then
        (if c # takeWhile is_ident_char cs \<in> set keyword_list
         then Inr (Keyword, c # takeWhile is_ident_char cs, dropWhile is_ident_char cs)
         else Inl c)
      else if is_digit c then
        (case scan_number c cs of (t, r) \<Rightarrow> Inr (Number, t, r))
      else if c = CHR 0x22 \<or> c = CHR 0x27 then
        (case scan_string c cs of
           None \<Rightarrow> Inl c
         | Some (v, r) \<Rightarrow> Inr (String, v, r))
      else scan_operator c cs)"

lemma scan_string_length: "scan_string q cs = Some (v, r) \<Longrightarrow> length r < length cs"
  by (induction q cs arbitrary: v rule: scan_string.induct)
     (auto split: if_splits)

lemma scan_number_length: "scan_number c cs = (t, r) \<Longrightarrow> length r \<le> length cs"
proof -
  have a: "length (dropWhile is_digit xs) \<le> length xs" for xs
    by (rule length_dropWhile_le)
  assume "scan_number c cs = (t, r)"
  then show ?thesis
    using a [of cs]
    by (auto simp: scan_number_def Let_def split: list.splits if_splits
        intro: order_trans [OF length_dropWhile_le])
qed

lemma scan_token_length:
  assumes "scan_token c cs = Inr (k, t, r)"
  shows "length r \<le> length cs"
proof -
  have dw: "length (dropWhile P cs) \<le> length cs" for P
    by (rule length_dropWhile_le)
  show ?thesis
    using assms dw scan_number_length [of c cs] scan_string_length [of c cs]
    by (auto simp: scan_token_def scan_operator_def split: if_splits list.splits option.splits prod.splits)
qed

text \<open>
  Modelled from the spec: \<open>tokenize\<close>, here from the offset \<open>pos\<close> on (the lexer's
  source is missing). Blanks and line comments (\<open>//\<close> and \<open>#\<close>, to the end of the
  line) are skipped; the first unexpected character ends the run with a \<open>LexError\<close> at
  its offset; the end of the input is the \<open>EOF\<close> token. The specification calls the
  token sequence lazy; since the facade runs the stages one after the other, the model
  produces the whole sequence, or the error, before parsing starts.
\<close>

function tokenize_from :: "nat \<Rightarrow> string \<Rightarrow> stage_error + token list" where
  "tokenize_from pos [] = Inr [\<lparr>kind = EOF, literal = [], offset = pos\<rparr>]"
| "tokenize_from pos (c # cs) =
     (if is_space c then tokenize_from (pos + 1) cs
      else if c = CHR ''#'' \<or> (c = CHR ''/'' \<and> take 1 cs = ''/'') then
        tokenize_from (pos + 1 + length (takeWhile (\<lambda>x. x \<noteq> CHR 0x0A) cs))
          (dropWhile (\<lambda>x. x \<noteq> CHR 0x0A) cs)
      else
        (case scan_token c cs of
           Inl bad \<Rightarrow> Inl (LexError pos bad)
         | Inr (k, t, r) \<Rightarrow>
             (case tokenize_from (pos + 1 + (length cs - length r)) r of
                Inl e \<Rightarrow> Inl e
              | Inr ts \<Rightarrow> Inr (\<lparr>kind = k, literal = t, offset = pos\<rparr> # ts))))"
  by pat_completeness auto
termination
  apply (relation "measure (\<lambda>(pos, cs). length cs)")
  apply (auto intro: le_imp_less_Suc length_dropWhile_le dest: scan_token_length)
  done

definition tokenize :: "string \<Rightarrow> stage_error + token list" where
  "tokenize src = tokenize_from 0 src"

subsection \<open>Abstract syntax\<close>

text \<open>
  Modelled from the spec: the expression variants of the data model. A number keeps its
  literal text, a string its decoded value, a variable its name without the sigil, a
  binary operation its operator's text.
\<close>

datatype expr =
    NumberLiteral string
  | StringLiteral string
  | VariableRef string
  | BinaryOp string expr expr

text \<open>
  Modelled from the spec: the statement variants of the data model. A block is the
  ordered sequence of its statements; the else block of an \<open>if\<close> is optional.
\<close>

datatype stmt =
    Assignment string expr
  | EchoStatement expr
  | IfStatement expr "stmt list" "stmt list option"
  | WhileStatement expr "stmt list"
  | Block "stmt list"

text \<open>Modelled from the spec: a program is the ordered sequence of its top-level statements.\<close>

type_synonym program = "stmt list"

subsection \<open>Parser\<close>

text \<open>
  Modelled from the spec: the operators of each binding level (the parser's source is
  missing). Level 3, the loosest, holds the comparisons, level 2 the additive and level 1
  the multiplicative operators; level 0 is a primary expression.
\<close>

definition level_ops :: "nat \<Rightarrow> string list" where
  "level_ops n =
     (if n = 3 then [''<'', ''>'', ''<='', ''>='', ''=='', ''!='']
      else if n = 2 then [''+'', ''-'']
      else if n = 1 then [''*'', ''/'']
      else [])"

text \<open>Modelled from the spec: tests on the next token.\<close>

definition is_punct :: "string \<Rightarrow> token \<Rightarrow> bool" where
  "is_punct p t = (kind t = Punctuation \<and> literal t = p)"

definition is_keyword :: "string \<Rightarrow> token \<Rightarrow> bool" where
  "is_keyword w t = (kind t = Keyword \<and> literal t = w)"

definition is_level_op :: "nat \<Rightarrow> token \<Rightarrow> bool" where
  "is_level_op n t = (kind t = Operator \<and> literal t \<in> set (level_ops n))"

text \<open>
  Modelled from the spec: the \<open>ParseError\<close> for an unexpected token: the position and
  the kind of the token found, and the kinds expected. Past the end of the token list,
  which the \<open>EOF\<close> token keeps the parser from, the position is 0.
\<close>

definition unexpected :: "kind list \<Rightarrow> token list \<Rightarrow> stage_error" where
  "unexpected ks toks =
     (case toks of
        [] \<Rightarrow> ParseError 0 ks EOF
      | t # ts \<Rightarrow> ParseError (offset t) ks (kind t))"

text \<open>Modelled from the spec: a required punctuation token (a missing one is a \<open>ParseError\<close>).\<close>

definition expect_punct :: "string \<Rightarrow> token list \<Rightarrow> stage_error + token list" where
  "expect_punct p toks =
     (case toks of
        [] \<Rightarrow> Inl (unexpected [Punctuation] toks)
      | t # ts \<Rightarrow> if is_punct p t then Inr ts else Inl (unexpected [Punctuation] toks))"

text \<open>
  Modelled from the spec: the expression grammar by precedence climbing (the parser's
  source is missing). \<open>parse_level n\<close> reads an operand of the next tighter level and
  hands it to \<open>parse_rest n\<close>, the loop that folds the operators of level \<open>n\<close> to the
  left; \<open>parse_primary\<close> reads a number, a string, a variable or a parenthesised
  expression. Each function returns the tree and the tokens left, or the first error.
  The tests on the length of the tokens left are the termination argument made explicit:
  \<open>parse_level_Suc\<close> and \<open>parse_rest_Cons\<close> below show that they never fail.
\<close>

function parse_level :: "nat \<Rightarrow> token list \<Rightarrow> stage_error + (expr \<times> token list)"
  and parse_rest :: "nat \<Rightarrow> expr \<Rightarrow> token list \<Rightarrow> stage_error + (expr \<times> token list)"
  and parse_primary :: "token list \<Rightarrow> stage_error + (expr \<times> token list)"
where
  "parse_level 0 toks = parse_primary toks"
| "parse_level (Suc n) toks =
     (case parse_level n toks of
        Inl e \<Rightarrow> Inl e
      | Inr (lhs, r) \<Rightarrow>
          if length r < length toks then parse_rest (Suc n) lhs r else Inr (lhs, r))"
| "parse_rest n lhs [] = Inr (lhs, [])"
| "parse_rest n lhs (t # ts) =
     (if is_level_op n t then
        (case parse_level (n - 1) ts of
           Inl e \<Rightarrow> Inl e
         | Inr (rhs, r) \<Rightarrow>
             if length r \<le> length ts then parse_rest n (BinaryOp (literal t) lhs rhs) r
             else Inr (BinaryOp (literal t) lhs rhs, r))
      else Inr (lhs, t # ts))"
| "parse_primary [] = Inl (unexpected [Number, String, Identifier, Punctuation] [])"
| "parse_primary (t # ts) =
     (if kind t = Number then Inr (NumberLiteral (literal t), ts)
      else if kind t = String then Inr (StringLiteral (literal t), ts)
      else if kind t = Identifier then Inr (VariableRef (literal t), ts)
      else if is_punct ''('' t then
        (case parse_level 3 ts of
           Inl e \<Rightarrow> Inl e
         | Inr (e, r) \<Rightarrow>
             (case expect_punct '')'' r of
                Inl err \<Rightarrow> Inl err
              | Inr r' \<Rightarrow> Inr (e, r')))
      else Inl (unexpected [Number, String, Identifier, Punctuation] (t # ts)))"
  by pat_completeness auto
termination
  by lexicographic_order


text \<open>Modelled from the spec: an expression starts at the loosest level.\<close>

definition parse_expression :: "token list \<Rightarrow> stage_error + (expr \<times> token list)" where
  "parse_expression toks = parse_level 3 toks"

lemma expect_punct_length: "expect_punct p toks = Inr r \<Longrightarrow> length r < length toks"
  by (auto simp: expect_punct_def split: list.splits if_splits)

lemma parse_level_length:
  "parse_level n toks = Inr (e, r) \<Longrightarrow> length r < length toks"
  "parse_rest n lhs toks = Inr (e, r) \<Longrightarrow> length r \<le> length toks"
  "parse_primary toks = Inr (e, r) \<Longrightarrow> length r < length toks"
proof (induction n toks and n lhs toks and toks arbitrary: e r and e r and e r
    rule: parse_level_parse_rest_parse_primary.induct)
  case (1 toks)
  then show ?case by simp
next
  case (2 n toks)
  then show ?case
    by (fastforce split: sum.splits prod.splits if_splits)
next
  case (3 n lhs)
  then show ?case by simp
next
  case (4 n lhs t ts)
  then show ?case
    by (fastforce split: sum.splits prod.splits if_splits)
next
  case 5
  then show ?case by simp
next
  case (6 t ts)
  then show ?case
    by (fastforce split: sum.splits prod.splits if_splits dest: expect_punct_length)
qed

lemma parse_expression_length:
  "parse_expression toks = Inr (e, r) \<Longrightarrow> length r < length toks"
  by (simp add: parse_expression_def parse_level_length)



text \<open>
  Modelled from the spec: the pieces of the statement grammar that do not recur: an
  expression followed by a required punctuation, a parenthesised condition, the rest of
  an assignment after its variable, and the rest of an \<open>echo\<close>.
\<close>

definition parse_expression_then :: "string \<Rightarrow> token list \<Rightarrow> stage_error + (expr \<times> token list)" where
  "parse_expression_then p toks =
     (case parse_expression toks of
        Inl e \<Rightarrow> Inl e
      | Inr (e, r) \<Rightarrow>
          (case expect_punct p r of
             Inl err \<Rightarrow> Inl err
           | Inr r' \<Rightarrow> Inr (e, r')))"

definition parse_condition :: "token list \<Rightarrow> stage_error + (expr \<times> token list)" where
  "parse_condition toks =
     (case expect_punct ''('' toks of
        Inl err \<Rightarrow> Inl err
      | Inr ts \<Rightarrow> parse_expression_then '')'' ts)"

definition parse_assignment :: "token \<Rightarrow> token list \<Rightarrow> stage_error + (stmt \<times> token list)" where
  "parse_assignment t ts =
     (case ts of
        [] \<Rightarrow> Inl (unexpected [Operator] ts)
      | eq # ts1 \<Rightarrow>
          if kind eq = Operator \<and> literal eq = ''='' then
            (case parse_expression_then '';'' ts1 of
               Inl e \<Rightarrow> Inl e
             | Inr (e, r) \<Rightarrow> Inr (Assignment (literal t) e, r))
          else Inl (unexpected [Operator] ts))"

definition parse_echo :: "token list \<Rightarrow> stage_error + (stmt \<times> token list)" where
  "parse_echo ts =
     (case parse_expression_then '';'' ts of
        Inl e \<Rightarrow> Inl e
      | Inr (e, r) \<Rightarrow> Inr (EchoStatement e, r))"

lemma parse_expression_then_length:
  "parse_expression_then p toks = Inr (e, r) \<Longrightarrow> length r < length toks"
  by (auto simp: parse_expression_then_def split: sum.splits
      dest!: parse_expression_length expect_punct_length)

lemma parse_condition_length:
  "parse_condition toks = Inr (e, r) \<Longrightarrow> length r < length toks"
  by (auto simp: parse_condition_def split: sum.splits
      dest!: parse_expression_then_length expect_punct_length)

text \<open>
  Modelled from the spec: the statement grammar (the parser's source is missing):
  \<open>Statement ::= Assignment ; | Echo ; | If | While | Block\<close>, with
  \<open>If ::= if ( Expression ) Block (else Block)?\<close>,
  \<open>While ::= while ( Expression ) Block\<close> and \<open>Block ::= { Statement* }\<close>.
  \<open>parse_statements\<close> reads statements up to a closing brace or the end of the input.
  Parsing stops at the first error. The tests on the length of the tokens left are again
  the termination argument; \<open>parse_statement_length\<close> shows that they never fail.
\<close>

function parse_statement :: "token list \<Rightarrow> stage_error + (stmt \<times> token list)"
  and parse_block :: "token list \<Rightarrow> stage_error + (stmt list \<times> token list)"
  and parse_statements :: "token list \<Rightarrow> stage_error + (stmt list \<times> token list)"
where
  "parse_statement [] = Inl (unexpected [Identifier, Keyword, Punctuation] [])"
| "parse_statement (t # ts) =
     (if kind t = Identifier then parse_assignment t ts
      else if is_keyword ''echo'' t then parse_echo ts
      else if is_keyword ''if'' t then
        (case parse_condition ts of
           Inl e \<Rightarrow> Inl e
         | Inr (c, r1) \<Rightarrow>
             (case parse_block r1 of
                Inl e \<Rightarrow> Inl e
              | Inr (thenBlock, r2) \<Rightarrow>
                  (case r2 of
                     [] \<Rightarrow> Inr (IfStatement c thenBlock None, r2)
                   | el # r3 \<Rightarrow>
                       if is_keyword ''else'' el \<and> length r3 < length ts then
                         (case parse_block r3 of
                            Inl e \<Rightarrow> Inl e
                          | Inr (elseBlock, r4) \<Rightarrow>
                              Inr (IfStatement c thenBlock (Some elseBlock), r4))
                       else Inr (IfStatement c thenBlock None, r2))))
      else if is_keyword ''while'' t then
        (case parse_condition ts of
           Inl e \<Rightarrow> Inl e
         | Inr (c, r1) \<Rightarrow>
             (case parse_block r1 of
                Inl e \<Rightarrow> Inl e
              | Inr (body, r2) \<Rightarrow> Inr (WhileStatement c body, r2)))
      else if is_punct ''{'' t then
        (case parse_block (t # ts) of
           Inl e \<Rightarrow> Inl e
         | Inr (body, r) \<Rightarrow> Inr (Block body, r))
      else Inl (unexpected [Identifier, Keyword, Punctuation] (t # ts)))"
| "parse_block [] = Inl (unexpected [Punctuation] [])"
| "parse_block (t # ts) =
     (if is_punct ''{'' t then
        (case parse_statements ts of
           Inl e \<Rightarrow> Inl e
         | Inr (body, r) \<Rightarrow>
             (case expect_punct ''}'' r of
                Inl err \<Rightarrow> Inl err
              | Inr r' \<Rightarrow> Inr (body, r')))
      else Inl (unexpected [Punctuation] (t # ts)))"
| "parse_statements [] = Inr ([], [])"
| "parse_statements (t # ts) =
     (if is_punct ''}'' t \<or> kind t = EOF then Inr ([], t # ts)
      else
        (case parse_statement (t # ts) of
           Inl e \<Rightarrow> Inl e
         | Inr (s, r) \<Rightarrow>
             if length r \<le> length ts then
               (case parse_statements r of
                  Inl e \<Rightarrow> Inl e
                | Inr (ss, r') \<Rightarrow> Inr (s # ss, r'))
             else Inr ([s], r)))"
  by pat_completeness auto
termination
  apply (relation "inv_image (less_than <*lex*> less_than)
      (\<lambda>x. case x of
              Inl toks \<Rightarrow> (length toks, 1)
            | Inr (Inl toks) \<Rightarrow> (length toks, 0)
            | Inr (Inr toks) \<Rightarrow> (length toks, 2))")
  apply (auto dest!: parse_condition_length)
  done

text \<open>
  Modelled from the spec: \<open>parse\<close>: the statements of the program, then the end of the
  input.
\<close>

definition parse :: "token list \<Rightarrow> stage_error + program" where
  "parse toks =
     (case parse_statements toks of
        Inl e \<Rightarrow> Inl e
      | Inr (prog, r) \<Rightarrow>
          (case r of
             [] \<Rightarrow> Inl (unexpected [EOF] r)
           | t # ts \<Rightarrow> if kind t = EOF then Inr prog else Inl (unexpected [EOF] r)))"

subsection \<open>Code generator\<close>

text \<open>
  Modelled from the spec: string literals are escaped again for JavaScript's quoting
  rules (the generator's source is missing): inside double quotes a quote and a backslash
  take a backslash, and a line feed and a carriage return, which a JavaScript string
  literal cannot hold, become \<open>\n\<close> and \<open>\r\<close>.
\<close>

fun escape_js :: "string \<Rightarrow> string" where
  "escape_js [] = []"
| "escape_js (c # cs) =
     (if c = CHR 0x22 then CHR 0x5C # CHR 0x22 # escape_js cs
      else if c = CHR 0x5C then CHR 0x5C # CHR 0x5C # escape_js cs
      else if c = CHR 0x0A then CHR 0x5C # CHR ''n'' # escape_js cs
      else if c = CHR 0x0D then CHR 0x5C # CHR ''r'' # escape_js cs
      else c # escape_js cs)"

text \<open>
  Modelled from the spec: expressions. A number is emitted as its literal, a variable as
  its bare name, and every binary operation as \<open>(left op right)\<close>, in parentheses
  whatever its operator.
\<close>

fun gen_expr :: "expr \<Rightarrow> string" where
  "gen_expr (NumberLiteral v) = v"
| "gen_expr (StringLiteral v) = [CHR 0x22] @ escape_js v @ [CHR 0x22]"
| "gen_expr (VariableRef name) = name"
| "gen_expr (BinaryOp op l r) = ''('' @ gen_expr l @ '' '' @ op @ '' '' @ gen_expr r @ '')''"

text \<open>
  Modelled from the spec: statements, one per line and in order (the generator's source
  is missing). The names already declared are threaded through the traversal: the first
  write to a name in a block emits \<open>let name = expr;\<close> and records the name, a later
  write emits \<open>name = expr;\<close>. The record is per lexical block: a nested block starts
  from the names declared around it, which JavaScript's scoping keeps visible inside
  (the specification's loop scenario, where the counter declared before the loop is
  assigned in its body, needs that), and what a block declares is forgotten where the
  block ends. \<open>echo\<close> becomes \<open>console.log\<close>; \<open>if\<close>, \<open>while\<close> and blocks keep
  their structure.
\<close>

fun gen_stmt :: "string list \<Rightarrow> stmt \<Rightarrow> string \<times> string list"
  and gen_stmts :: "string list \<Rightarrow> stmt list \<Rightarrow> string \<times> string list"
where
  "gen_stmt declared (Assignment name e) =
     (if name \<in> set declared then (name @ '' = '' @ gen_expr e @ '';\<newline>'', declared)
      else (''let '' @ name @ '' = '' @ gen_expr e @ '';\<newline>'', name # declared))"
| "gen_stmt declared (EchoStatement e) = (''console.log('' @ gen_expr e @ '');\<newline>'', declared)"
| "gen_stmt declared (IfStatement c thenBlock elseBlock) =
     (''if ('' @ gen_expr c @ '') {\<newline>'' @ fst (gen_stmts declared thenBlock) @ ''}'' @
        (case elseBlock of
           None \<Rightarrow> []
         | Some ss \<Rightarrow> '' else {\<newline>'' @ fst (gen_stmts declared ss) @ ''}'') @ ''\<newline>'',
      declared)"
| "gen_stmt declared (WhileStatement c body) =
     (''while ('' @ gen_expr c @ '') {\<newline>'' @ fst (gen_stmts declared body) @ ''}\<newline>'', declared)"
| "gen_stmt declared (Block body) = (''{\<newline>'' @ fst (gen_stmts declared body) @ ''}\<newline>'', declared)"
| "gen_stmts declared [] = ([], declared)"
| "gen_stmts declared (s # ss) =
     (case gen_stmt declared s of
        (out, declared') \<Rightarrow>
          (case gen_stmts declared' ss of
             (outs, declared'') \<Rightarrow> (out @ outs, declared'')))"

text \<open>Modelled from the spec: \<open>generate\<close>: a program starts with no name declared.\<close>

definition generate :: "program \<Rightarrow> string" where
  "generate prog = fst (gen_stmts [] prog)"

subsection \<open>Transpile facade\<close>

text \<open>
  Modelled from the spec: \<open>TranspileError\<close>, the uniform shape of a failure: stage
  name, position and message.
\<close>

record TranspileError =
  stage :: string
  position :: nat
  message :: string

text \<open>Modelled from the spec: the wording of the messages (the facade's source is missing).\<close>

fun kind_name :: "kind \<Rightarrow> string" where
  "kind_name Number = ''Number''"
| "kind_name Identifier = ''Identifier''"
| "kind_name String = ''String''"
| "kind_name Keyword = ''Keyword''"
| "kind_name Operator = ''Operator''"
| "kind_name Punctuation = ''Punctuation''"
| "kind_name EOF = ''EOF''"

fun kind_names :: "kind list \<Rightarrow> string" where
  "kind_names [] = []"
| "kind_names [k] = kind_name k"
| "kind_names (k # ks) = kind_name k @ '' or '' @ kind_names ks"

text \<open>
  Modelled from the spec: the facade wraps a stage's error: the stage that raised it,
  its position as it is, and a message made of its other fields.
\<close>

fun wrap_error :: "stage_error \<Rightarrow> TranspileError" where
  "wrap_error (LexError p c) =
     \<lparr>stage = ''lex'', position = p, message = ''unexpected character '' @ [c]\<rparr>"
| "wrap_error (ParseError p expected found) =
     \<lparr>stage = ''parse'', position = p,
      message = ''expected '' @ kind_names expected @ '', found '' @ kind_name found\<rparr>"

text \<open>
  Modelled from the spec: \<open>transpile\<close> runs lexing, parsing and generation in this
  order (the facade's source is missing); the first stage that fails ends the call with
  its wrapped error, and generation cannot fail.
\<close>

definition transpile :: "string \<Rightarrow> TranspileError + string" where
  "transpile src =
     (case tokenize src of
        Inl e \<Rightarrow> Inl (wrap_error e)
      | Inr toks \<Rightarrow>
          (case parse toks of
             Inl e \<Rightarrow> Inl (wrap_error e)
           | Inr prog \<Rightarrow> Inr (generate prog)))"

section \<open>Properties of the transpiler core\<close>

subsection \<open>Lexer\<close>








subsection \<open>Parser: errors and remaining tokens\<close>

text \<open>
  A parse error raised on the tokens \<open>toks\<close> carries the offset of one of them (or 0,
  past their end).
\<close>

definition error_at :: "token list \<Rightarrow> stage_error \<Rightarrow> bool" where
  "error_at toks e =
     (is_parse_error e \<and> (error_position e = 0 \<or> error_position e \<in> offset ` set toks))"















text \<open>
  What every parsing function guarantees: an error is one of the tokens given, and the
  tokens left are among the tokens given.
\<close>

definition parser_ok :: "token list \<Rightarrow> stage_error + ('a \<times> token list) \<Rightarrow> bool" where
  "parser_ok toks res =
     (case res of Inl e \<Rightarrow> error_at toks e | Inr (x, r) \<Rightarrow> set r \<subseteq> set toks)"

lemma parser_ok_simps [simp]:
  "parser_ok toks (Inl e) = error_at toks e"
  "parser_ok toks (Inr (x, r)) = (set r \<subseteq> set toks)"
  by (simp_all add: parser_ok_def)









subsection \<open>Positions and the facade\<close>







subsection \<open>Tokens lie in the source where their offsets say\<close>








section \<open>Claims about the lexer and the facade\<close>



text \<open>The malformed input of the specification's fifth scenario, and its tokens.\<close>

definition malformed_source :: string where
  "malformed_source = ''$a = ;''"

definition malformed_tokens :: "token list" where
  "malformed_tokens =
     [\<lparr>kind = Identifier, literal = ''a'', offset = 0\<rparr>,
      \<lparr>kind = Operator, literal = ''='', offset = 3\<rparr>,
      \<lparr>kind = Punctuation, literal = '';'', offset = 5\<rparr>,
      \<lparr>kind = EOF, literal = [], offset = 6\<rparr>]"

lemma tokenize_malformed: "tokenize malformed_source = Inr malformed_tokens"
  unfolding malformed_source_def malformed_tokens_def by code_simp

lemma parse_malformed:
  "parse malformed_tokens = Inl (ParseError 5 [Number, String, Identifier, Punctuation] Punctuation)"
  unfolding malformed_tokens_def by code_simp

lemma tokenize_bad_char: "tokenize ''$a = 1 @ 2;'' = Inl (LexError 7 (CHR ''@''))"
  by code_simp

text \<open>
  C6. On \<open>$a = ;\<close> the lexer succeeds and the parser fails: \<open>transpile\<close> returns
  the wrapped \<open>ParseError\<close> whose position, 5, is the offset of the semicolon, where the
  expression should start, and returns no output text. In general an error of the lexer
  ends the call whatever the later stages would do, and an error of the parser ends it
  before generation.
\<close>

theorem malformed_assignment_fails:
  "tokenize malformed_source = Inr malformed_tokens \<and>
   parse malformed_tokens = Inl (ParseError 5 [Number, String, Identifier, Punctuation] Punctuation) \<and>
   malformed_source ! 5 = CHR '';'' \<and>
   transpile malformed_source =
     Inl \<lparr>stage = ''parse'', position = 5,
          message = ''expected Number or String or Identifier or Punctuation, found Punctuation''\<rparr> \<and>
   (\<forall>out. transpile malformed_source \<noteq> Inr out) \<and>
   (\<forall>e. tokenize src = Inl e \<longrightarrow> transpile src = Inl (wrap_error e)) \<and>
   (\<forall>toks e. tokenize src = Inr toks \<and> parse toks = Inl e \<longrightarrow> transpile src = Inl (wrap_error e))"
proof -
  have t: "transpile malformed_source =
     Inl \<lparr>stage = ''parse'', position = 5,
          message = ''expected Number or String or Identifier or Punctuation, found Punctuation''\<rparr>"
    by (simp add: transpile_def tokenize_malformed parse_malformed)
  have i: "malformed_source ! 5 = CHR '';''"
    by (simp add: malformed_source_def)
  show ?thesis
    using t i tokenize_malformed parse_malformed by (auto simp: transpile_def)
qed

theorem malformed_assignment_fails_witness:
  "tokenize ''$a = 1 @ 2;'' = Inl (LexError 7 (CHR ''@'')) \<and>
   transpile ''$a = 1 @ 2;'' =
     Inl \<lparr>stage = ''lex'', position = 7, message = ''unexpected character @''\<rparr> \<and>
   tokenize malformed_source = Inr malformed_tokens \<and>
   parse malformed_tokens = Inl (ParseError 5 [Number, String, Identifier, Punctuation] Punctuation) \<and>
   transpile malformed_source =
     Inl (wrap_error (ParseError 5 [Number, String, Identifier, Punctuation] Punctuation))"
proof -
  from malformed_assignment_fails [of "''$a = 1 @ 2;''"] tokenize_bad_char
  have "transpile ''$a = 1 @ 2;'' = Inl (wrap_error (LexError 7 (CHR ''@'')))"
    by blast
  moreover from malformed_assignment_fails [of malformed_source]
  have "transpile malformed_source =
     Inl (wrap_error (ParseError 5 [Number, String, Identifier, Punctuation] Punctuation))"
    by blast
  ultimately show ?thesis
    using tokenize_bad_char tokenize_malformed parse_malformed by simp
qed



section \<open>What the parser's trees are made of\<close>






subsection \<open>Tokens of the lexer are well formed\<close>









subsection \<open>The statement parser without its length tests\<close>



subsection \<open>Trees of the parser are well formed\<close>















section \<open>Reading the generated JavaScript\<close>

text \<open>
  Two claims speak of the JavaScript text itself: of the value of an expression in it and
  of its \<open>let\<close> declarations. To state them the text is read the way JavaScript reads
  it. The reader below covers the part of JavaScript's lexical grammar and of its
  expression grammar that the generator's output uses. It is cautious: where the input
  leaves that part (another operator, a comment, an escape it does not know, a number
  followed by a letter), it returns nothing rather than a reading JavaScript would not
  share.
\<close>

datatype js_token =
    JNumber string
  | JString string
  | JIdent string
  | JKeyword string
  | JOp string
  | JPunct string























section \<open>The generated text, token by token\<close>



text \<open>Tokens in front of the tokens of the rest of a text, when that rest can be read.\<close>

definition then_tokens :: "js_token list \<Rightarrow> js_token list option \<Rightarrow> js_token list option" where
  "then_tokens ts r = map_option ((@) ts) r"

text \<open>What may follow an expression in the generated text: a blank, a closing parenthesis or a semicolon.\<close>

definition expr_end :: "string \<Rightarrow> bool" where
  "expr_end rest =
     (case rest of
        [] \<Rightarrow> True
      | x # xs \<Rightarrow> x = CHR '' '' \<or> x = CHR '')'' \<or> x = CHR '';'')"

subsection \<open>The reader on the pieces of the generated text\<close>

lemma then_tokens_Nil [simp]: "then_tokens [] r = r"
  by (cases r) (simp_all add: then_tokens_def)

lemma then_tokens_then [simp]: "then_tokens ts (then_tokens us r) = then_tokens (ts @ us) r"
  by (cases r) (simp_all add: then_tokens_def)

















subsection \<open>The reader finds the tokens of the generated text\<close>

lemma expr_end_simps [simp]:
  "expr_end (CHR '' '' # xs)" "expr_end (CHR '')'' # xs)" "expr_end (CHR '';'' # xs)"
  by (simp_all add: expr_end_def)










subsection \<open>The expression reader on the tokens of a generated expression\<close>














section \<open>Values of arithmetic expressions\<close>










section \<open>Declarations and uses of names in the generated text\<close>











subsection \<open>The events of the generated text are those of the tree\<close>










subsection \<open>One declaration, before every use\<close>











section \<open>Claims about the generated text\<close>









section \<open>The parser and JavaScript's grammar agree on arithmetic\<close>



































end
